theory Spec2Isabelle
  imports Main "HOL-Library.Sublist"
begin

section \<open>Data model\<close>

text \<open>
  The client layer of \<^verbatim>\<open>index.ts\<close> and the notification handler of
  \<^verbatim>\<open>endpoint.ts\<close>. The modules \<^verbatim>\<open>types.ts\<close>, \<^verbatim>\<open>cache.ts\<close>,
  \<^verbatim>\<open>listeners.ts\<close>, \<^verbatim>\<open>actions.ts\<close>, \<^verbatim>\<open>resource.ts\<close> and
  \<^verbatim>\<open>util.ts\<close> are imported by the two files but are not part of the sources at
  hand; what is needed of them is declared below, each time with a note.
\<close>

text \<open>Scalar attribute values of a case (\<^verbatim>\<open>unknown\<close> in the source).\<close>

datatype JsonValue = JNull | JBool bool | JNum int | JStr string

text \<open>
  \<^verbatim>\<open>Record<string, unknown>\<close>: a JavaScript object, as the map from its property
  names to their values (the order of the properties is not kept).
\<close>

type_synonym DataItem = "string \<rightharpoonup> JsonValue"

text \<open>
  Modelled from the spec: \<^verbatim>\<open>types.ts\<close> is not among the sources. A collection has
  the name and the labels the source writes (the placeholder
  \<^verbatim>\<open>{name: uniqueName, labels: {}}\<close>) and the attribute names of the data model;
  a field the object does not have is \<open>None\<close>.
\<close>

record Collection =
  name :: string
  labels :: "(string \<times> string) list option"
  attrs :: "string list option"

text \<open>
  Modelled from the spec: \<^verbatim>\<open>DataContext\<close> of \<^verbatim>\<open>types.ts\<close>, a name, a title and
  the ordered sequence of collections, which is the one field the source reads.
\<close>

record DataContext =
  dcName :: string
  dcTitle :: string
  collections :: "Collection list"

text \<open>
  Modelled from the spec: \<^verbatim>\<open>ReturnedCase\<close> of \<^verbatim>\<open>types.ts\<close>, a case with its
  numeric id, the id of its parent (\<open>None\<close> for \<^verbatim>\<open>null\<close> and for \<^verbatim>\<open>undefined\<close>)
  and its own values.
\<close>

record ReturnedCase =
  caseId :: int
  parent :: "int option"
  "values" :: DataItem

text \<open>
  Modelled from the spec: \<^verbatim>\<open>Dataset\<close> of \<^verbatim>\<open>types.ts\<close>, with the two fields
  \<^verbatim>\<open>collections\<close> and \<^verbatim>\<open>records\<close> that the source reads.
\<close>

record Dataset =
  datasetCollections :: "Collection list"
  datasetRecords :: "DataItem list"

text \<open>\<^verbatim>\<open>{success: boolean, values: T}\<close>, the response of the host to one request.\<close>

record 'a CodapResponse =
  success :: bool
  responseValues :: 'a

text \<open>
  Modelled from the spec: the request builders of \<^verbatim>\<open>actions.ts\<close> and the resource
  selectors of \<^verbatim>\<open>resource.ts\<close> are not among the sources. A request is kept as the
  name of the operation it asks for together with the arguments the source passes to
  its builder.
\<close>

datatype CodapRequest =
    GetContextRequest string
  | GetCaseRequest string int
  | DeleteAllCasesRequest string string
  | CreateCollectionsRequest string "Collection list"
  | DeleteCollectionRequest string string
  | InsertDataItemsRequest string "DataItem list"

text \<open>
  Every \<^verbatim>\<open>throw\<close> and every \<^verbatim>\<open>reject\<close> of the source carries an \<^verbatim>\<open>Error\<close> with
  a message. Reading a property of \<^verbatim>\<open>undefined\<close> or of \<^verbatim>\<open>null\<close> throws a
  \<^verbatim>\<open>TypeError\<close>.
\<close>

datatype error = Error string | TypeError

text \<open>
  What the program does to the outside, in the order it does it: a call of
  \<^verbatim>\<open>phone.call\<close> with one request or with an array of requests, and the calls into
  the listener registry of \<^verbatim>\<open>listeners.ts\<close> (not among the sources; a call is
  recorded, the listeners themselves are external code).
\<close>

datatype Event =
    PhoneCall CodapRequest
  | PhoneCallMultiple "CodapRequest list"
  | UpdateListenersForContext string
  | AllContextListeners

text \<open>
  The module state: the three stores of \<^verbatim>\<open>cache.ts\<close> and the trace of events.
\<close>

record State =
  contextCache :: "string \<rightharpoonup> DataContext"
  caseCache :: "int \<rightharpoonup> ReturnedCase"
  recordsCache :: "string \<rightharpoonup> DataItem list"
  trace :: "Event list"

text \<open>
  \<^verbatim>\<open>util.ts\<close> is not among the sources. Its three functions that the modelled
  code calls are parameters of the model: nothing is assumed of them.
\<close>

record Util =
  fillCollectionWithDefaults :: "Collection \<Rightarrow> Collection"
  collectionsEqual :: "Collection list \<Rightarrow> Collection list \<Rightarrow> bool"
  normalizeDataContext :: "DataContext \<Rightarrow> DataContext"

text \<open>
  The host behind the transport, as far as the modelled operations consult it: its
  answer to a get of a context, to a get of a case, and to a batch of requests.
  The answers are arbitrary; nothing is assumed of the host.
\<close>

record Host =
  respondGetContext :: "string \<Rightarrow> DataContext CodapResponse"
  respondGetCase :: "string \<Rightarrow> int \<Rightarrow> ReturnedCase CodapResponse"
  respondMultiple :: "CodapRequest list \<Rightarrow> unit CodapResponse list"

section \<open>The entity cache\<close>

text \<open>
  \<^verbatim>\<open>cache.ts\<close> is not among the sources. Its functions that the modelled code calls
  follow the specification of the entity cache: three keyed stores, each with get, set
  and invalidate; \<open>set\<close> overwrites; an entry is there or it is not.
\<close>

text \<open>
  Modelled from the spec: \<^verbatim>\<open>Cache.getContext\<close> of \<^verbatim>\<open>cache.ts\<close>, the entry of the
  context-schema store under the name, \<open>None\<close> for \<^verbatim>\<open>undefined\<close>.
\<close>

definition getContext :: "string \<Rightarrow> State \<Rightarrow> DataContext option" where
  "getContext k s = contextCache s k"

text \<open>
  Modelled from the spec: \<^verbatim>\<open>Cache.setContext\<close> of \<^verbatim>\<open>cache.ts\<close>, which overwrites
  the entry of the context-schema store under the name.
\<close>

definition setContext :: "string \<Rightarrow> DataContext \<Rightarrow> State \<Rightarrow> State" where
  "setContext k v s = s\<lparr>contextCache := (contextCache s)(k \<mapsto> v)\<rparr>"

text \<open>
  Modelled from the spec: \<^verbatim>\<open>Cache.invalidateContext\<close> of \<^verbatim>\<open>cache.ts\<close>, which
  removes the schema entry of the context and with it the record-set entry of the
  context, and nothing else.
\<close>

definition invalidateContext :: "string \<Rightarrow> State \<Rightarrow> State" where
  "invalidateContext k s =
     s\<lparr>contextCache := (contextCache s)(k := None),
       recordsCache := (recordsCache s)(k := None)\<rparr>"

text \<open>
  Modelled from the spec: \<^verbatim>\<open>Cache.getCase\<close> of \<^verbatim>\<open>cache.ts\<close>, the entry of the case
  store under the case id.
\<close>

definition getCase :: "int \<Rightarrow> State \<Rightarrow> ReturnedCase option" where
  "getCase i s = caseCache s i"

text \<open>
  Modelled from the spec: \<^verbatim>\<open>Cache.setCase\<close> of \<^verbatim>\<open>cache.ts\<close>. The case store is
  keyed by the case id alone, not by the context that the source passes as well.
\<close>

definition setCase :: "string \<Rightarrow> int \<Rightarrow> ReturnedCase \<Rightarrow> State \<Rightarrow> State" where
  "setCase context i v s = s\<lparr>caseCache := (caseCache s)(i \<mapsto> v)\<rparr>"

text \<open>
  Modelled from the spec: \<^verbatim>\<open>Cache.invalidateCase\<close> of \<^verbatim>\<open>cache.ts\<close>, which removes
  the entry of that case and no other entry of any store.
\<close>

definition invalidateCase :: "int \<Rightarrow> State \<Rightarrow> State" where
  "invalidateCase i s = s\<lparr>caseCache := (caseCache s)(i := None)\<rparr>"

text \<open>An event is appended to the trace.\<close>

definition emit :: "Event \<Rightarrow> State \<Rightarrow> State" where
  "emit e s = s\<lparr>trace := trace s @ [e]\<rparr>"

section \<open>Reading cases and flattening\<close>

text \<open>A case id inside a template literal: the decimal numeral of the integer.\<close>

fun showNat :: "nat \<Rightarrow> string" where
  "showNat n =
     (if n < 10 then [''0123456789'' ! n]
      else showNat (n div 10) @ [''0123456789'' ! (n mod 10)])"

declare showNat.simps [simp del]

definition showInt :: "int \<Rightarrow> string" where
  "showInt i = (if i < 0 then ''-'' @ showNat (nat (- i)) else showNat (nat i))"

text \<open>
  \<^verbatim>\<open>getCaseById\<close> (index.ts, 152-175): the cached case if there is one, else a
  remote get; a successful answer is stored and returned, a failed one rejects.
\<close>

definition getCaseById :: "Host \<Rightarrow> string \<Rightarrow> int \<Rightarrow> State \<Rightarrow> (error + ReturnedCase) \<times> State" where
  "getCaseById h context i s =
     (case getCase i s of
        Some cached \<Rightarrow> (Inr cached, s)
      | None \<Rightarrow>
          (let s1 = emit (PhoneCall (GetCaseRequest context i)) s;
               response = respondGetCase h context i
           in if success response
              then (let result = responseValues response
                    in (Inr result, setCase context i result s1))
              else (Inl (Error (''Failed to get case in '' @ context @ '' with id '' @ showInt i)), s1)))"

text \<open>
  Object spread \<^verbatim>\<open>{...a, ...b}\<close>: every property of \<open>a\<close>, then every property
  of \<open>b\<close>; where both have a key, the value of \<open>b\<close> is the one that stays.
\<close>

definition spread :: "DataItem \<Rightarrow> DataItem \<Rightarrow> DataItem" where
  "spread a b = a ++ b"

text \<open>
  \<^verbatim>\<open>dataItemFromChildCase\<close> (index.ts, 233-246), the closure inside
  \<^verbatim>\<open>getDataFromContext\<close> with its captured \<^verbatim>\<open>context\<close> as an argument. A case
  without parent gives its own values; otherwise the parent is fetched by
  \<^verbatim>\<open>getCaseById\<close> and the result is
  \<^verbatim>\<open>{...c.values, ...(await dataItemFromChildCase(parent))}\<close>. A rejection of
  \<^verbatim>\<open>getCaseById\<close> propagates. The recursion follows parent ids for as long as
  there are any, so the function is partial: \<open>None\<close> is a walk that never ends.
\<close>

partial_function (option) dataItemFromChildCase ::
  "Host \<Rightarrow> string \<Rightarrow> ReturnedCase \<Rightarrow> State \<Rightarrow> ((error + DataItem) \<times> State) option" where
  "dataItemFromChildCase h context c s =
     (case parent c of
        None \<Rightarrow> Some (Inr (values c), s)
      | Some p \<Rightarrow>
          (case getCaseById h context p s of
             (Inl e, s1) \<Rightarrow> Some (Inl e, s1)
           | (Inr parentCase, s1) \<Rightarrow>
               Option.bind (dataItemFromChildCase h context parentCase s1)
                 (\<lambda>(r, s2). case r of
                    Inl e \<Rightarrow> Some (Inl e, s2)
                  | Inr parentItem \<Rightarrow> Some (Inr (spread (values c) parentItem), s2))))"

section \<open>Reading a context\<close>

text \<open>
  \<^verbatim>\<open>getDataContext\<close> (index.ts, 278-301): the cached context if there is one, else
  a remote get; a successful answer is normalized, stored under the name and returned,
  a failed one rejects.
\<close>

definition getDataContext :: "Util \<Rightarrow> Host \<Rightarrow> string \<Rightarrow> State \<Rightarrow> (error + DataContext) \<times> State" where
  "getDataContext u h contextName s =
     (case getContext contextName s of
        Some cached \<Rightarrow> (Inr cached, s)
      | None \<Rightarrow>
          (let s1 = emit (PhoneCall (GetContextRequest contextName)) s;
               response = respondGetContext h contextName
           in if success response
              then (let context = normalizeDataContext u (responseValues response)
                    in (Inr context, setContext contextName context s1))
              else (Inl (Error (''Failed to get context '' @ contextName)), s1)))"

section \<open>Schema reconciliation\<close>

text \<open>
  The placeholder name of \<^verbatim>\<open>updateContextWithDataSet\<close> (index.ts, 413-417):
  \<^verbatim>\<open>context.collections.reduce(concatNames, "") + dataset.collections.reduce(concatNames, "")\<close>.
\<close>

definition concatNames :: "string \<Rightarrow> Collection \<Rightarrow> string" where
  "concatNames nameAcc collection = nameAcc @ name collection"

definition uniqueName :: "Collection list \<Rightarrow> Collection list \<Rightarrow> string" where
  "uniqueName current requested = foldl concatNames [] current @ foldl concatNames [] requested"

text \<open>
  The requests that \<^verbatim>\<open>updateContextWithDataSet\<close> collects (index.ts, 402-440), in the
  order of the \<^verbatim>\<open>push\<close> calls.
\<close>

definition updateRequests :: "Util \<Rightarrow> string \<Rightarrow> DataContext \<Rightarrow> Dataset \<Rightarrow> CodapRequest list" where
  "updateRequests u contextName context dataset =
     (let requests = map (\<lambda>collection. DeleteAllCasesRequest contextName (name collection)) (collections context);
          normalizedCollections = map (fillCollectionWithDefaults u) (datasetCollections dataset);
          requests =
            (if \<not> collectionsEqual u (collections context) normalizedCollections
             then requests
                  @ [CreateCollectionsRequest contextName
                       [\<lparr>name = uniqueName (collections context) (datasetCollections dataset),
                         labels = Some [], attrs = None\<rparr>]]
                  @ map (\<lambda>collection. DeleteCollectionRequest contextName (name collection)) (collections context)
                  @ [CreateCollectionsRequest contextName (datasetCollections dataset),
                     DeleteCollectionRequest contextName
                       (uniqueName (collections context) (datasetCollections dataset))]
             else requests)
      in requests @ [InsertDataItemsRequest contextName (datasetRecords dataset)])"

text \<open>
  The scan of the responses (index.ts, 443-447): the first response that is not a
  success throws.
\<close>

fun checkResponses :: "string \<Rightarrow> unit CodapResponse list \<Rightarrow> error + unit" where
  "checkResponses contextName [] = Inr ()"
| "checkResponses contextName (response # responses) =
     (if \<not> success response then Inl (Error (''Failed to update '' @ contextName))
      else checkResponses contextName responses)"

text \<open>
  \<^verbatim>\<open>updateContextWithDataSet\<close> (index.ts, 397-448). A rejection of
  \<^verbatim>\<open>getDataContext\<close> propagates before anything is sent; otherwise the requests go
  out in one \<^verbatim>\<open>callMultiple\<close> and the responses are scanned.
\<close>

definition updateContextWithDataSet :: "Util \<Rightarrow> Host \<Rightarrow> string \<Rightarrow> Dataset \<Rightarrow> State \<Rightarrow> (error + unit) \<times> State" where
  "updateContextWithDataSet u h contextName dataset s =
     (case getDataContext u h contextName s of
        (Inl e, s1) \<Rightarrow> (Inl e, s1)
      | (Inr context, s1) \<Rightarrow>
          (let requests = updateRequests u contextName context dataset;
               s2 = emit (PhoneCallMultiple requests) s1;
               responses = respondMultiple h requests
           in (checkResponses contextName responses, s2)))"

text \<open>A request that creates or deletes collections; a request that inserts data items.\<close>

fun isCollectionManagement :: "CodapRequest \<Rightarrow> bool" where
  "isCollectionManagement (CreateCollectionsRequest c cs) = True"
| "isCollectionManagement (DeleteCollectionRequest c n) = True"
| "isCollectionManagement r = False"

fun isInsertDataItems :: "CodapRequest \<Rightarrow> bool" where
  "isInsertDataItems (InsertDataItemsRequest c items) = True"
| "isInsertDataItems r = False"

section \<open>The notification handler\<close>

text \<open>
  Modelled from the spec: the enums of \<^verbatim>\<open>types.ts\<close> are not among the sources.
  \<open>CodapActions\<close> has the actions of the protocol. \<open>Operation\<close> has the operation
  names the handler compares with (of \<^verbatim>\<open>DocumentChangeOperations\<close> and of
  \<^verbatim>\<open>ContextChangeOperation\<close>); any other name the host sends is an \<open>OtherOperation\<close>.
\<close>

datatype CodapActions = Create | Delete | Get | Notify | Update

datatype Operation =
    DataContextCountChanged
  | UpdateCases | CreateCases | DeleteCases | MoveCases
  | CreateAttribute | UpdateAttribute | DeleteAttribute | MoveAttribute
  | UpdateCollection | CreateCollection | DeleteCollection
  | DependentCases | HideAttribute | UnhideAttribute
  | UpdateContext
  | OtherOperation string

text \<open>
  Modelled from the spec: a notification is
  \<^verbatim>\<open>{action, resource: string, values: object | object[]}\<close>. Of an object of
  \<^verbatim>\<open>values\<close> the handler reads \<^verbatim>\<open>operation\<close> and \<^verbatim>\<open>result?.caseIDs\<close>; a property
  that is missing is \<open>None\<close>, and so is a \<^verbatim>\<open>caseIDs\<close> that is not an array.
  Nothing in the handler checks that shape, so the messages of the model go beyond it:
  \<^verbatim>\<open>values\<close> may be missing or \<^verbatim>\<open>null\<close> (\<open>ValuesAbsent\<close>), and an element of an
  array may be \<^verbatim>\<open>null\<close> or \<^verbatim>\<open>undefined\<close> (\<open>None\<close>). A value that is neither an
  object nor \<^verbatim>\<open>null\<close> nor \<^verbatim>\<open>undefined\<close> has none of the properties read, and
  stands as an object without them.
\<close>

record OperationResult =
  caseIDs :: "int list option"

record Notification =
  operation :: "Operation option"
  result :: "OperationResult option"

datatype NotifyValues =
    ValuesAbsent
  | ValuesObject Notification
  | ValuesArray "Notification option list"

record CodapInitiatedCommand =
  action :: CodapActions
  resource :: string
  commandValues :: NotifyValues

text \<open>
  Modelled from the spec: the two members of \<^verbatim>\<open>CodapInitiatedResource\<close>
  (\<^verbatim>\<open>types.ts\<close>), with the resource names of the host's protocol. The theorems below
  use of them only that they are fixed strings.
\<close>

definition DocumentChangeNotice :: string where
  "DocumentChangeNotice = ''documentChangeNotice''"

definition DataContextChangeNotice :: string where
  "DataContextChangeNotice = ''dataContextChangeNotice''"

text \<open>\<^verbatim>\<open>mutatingOperations\<close> (endpoint.ts, 768-783).\<close>

definition mutatingOperations :: "Operation list" where
  "mutatingOperations =
     [UpdateCases, CreateCases, DeleteCases, MoveCases,
      CreateAttribute, UpdateAttribute, DeleteAttribute, MoveAttribute,
      UpdateCollection, CreateCollection, DeleteCollection,
      DependentCases, HideAttribute, UnhideAttribute]"

text \<open>
  \<^verbatim>\<open>mutatingOperations.includes(value.operation)\<close>; a missing operation is in no list.
\<close>

definition includesOperation :: "Operation list \<Rightarrow> Operation option \<Rightarrow> bool" where
  "includesOperation ops v = (case v of None \<Rightarrow> False | Some x \<Rightarrow> x \<in> set ops)"

text \<open>
  \<^verbatim>\<open>s.search("\\[")\<close>: the index of the first opening bracket, or \<open>-1\<close>.
  \<^verbatim>\<open>s.slice(start, end)\<close>: a negative index counts from the end, both indices are
  clamped to the string, and the result is empty when they cross.
\<close>

definition search :: "string \<Rightarrow> int" where
  "search s =
     (if CHR ''['' \<in> set s then int (length (takeWhile (\<lambda>x. x \<noteq> CHR ''['') s)) else - 1)"

definition slice :: "string \<Rightarrow> int \<Rightarrow> int \<Rightarrow> string" where
  "slice s start stop =
     (let n = int (length s);
          lo = (if start < 0 then max (n + start) 0 else min start n);
          hi = (if stop < 0 then max (n + stop) 0 else min stop n)
      in take (nat (hi - lo)) (drop (nat lo) s))"

text \<open>The context name between the first bracket and the last character (endpoint.ts, 820-823).\<close>

definition contextNameOf :: "string \<Rightarrow> string" where
  "contextNameOf r = slice r (search r + 1) (int (length r) - 1)"

text \<open>
  One round of the loop over \<^verbatim>\<open>command.values\<close> (endpoint.ts, 825-842), on the two
  flags and the state.
\<close>

definition handleValue :: "Notification \<Rightarrow> bool \<times> bool \<times> State \<Rightarrow> bool \<times> bool \<times> State" where
  "handleValue v acc =
     (case acc of (contextUpdate, contextListUpdate, s) \<Rightarrow>
        (contextUpdate \<or> includesOperation mutatingOperations (operation v),
         contextListUpdate \<or> operation v = Some UpdateContext,
         if operation v = Some DeleteCases \<or> operation v = Some UpdateCases
         then (case result v of
                 None \<Rightarrow> s
               | Some res \<Rightarrow>
                   (case caseIDs res of
                      None \<Rightarrow> s
                    | Some ids \<Rightarrow> fold invalidateCase ids s))
         else s))"

text \<open>
  The loop over \<^verbatim>\<open>command.values\<close> (endpoint.ts, 825-842). Reading
  \<^verbatim>\<open>value.operation\<close> of an element that is \<^verbatim>\<open>null\<close> or \<^verbatim>\<open>undefined\<close> throws;
  what the rounds before it did to the state stays done.
\<close>

fun handleValues ::
  "Notification option list \<Rightarrow> bool \<times> bool \<times> State \<Rightarrow> (error + bool \<times> bool) \<times> State" where
  "handleValues [] acc =
     (case acc of (contextUpdate, contextListUpdate, s) \<Rightarrow>
        (Inr (contextUpdate, contextListUpdate), s))"
| "handleValues (None # vs) acc =
     (case acc of (contextUpdate, contextListUpdate, s) \<Rightarrow> (Inl TypeError, s))"
| "handleValues (Some v # vs) acc = handleValues vs (handleValue v acc)"

text \<open>
  \<^verbatim>\<open>codapRequestHandler\<close> (endpoint.ts, 788-855). The result is what the call
  throws, or the list of the responses given to \<^verbatim>\<open>callback\<close>; and the state.
  \<^verbatim>\<open>command.values.operation\<close> (line 799) is read only when the resource is the
  document change notice: it throws when there are no values, and it is
  \<^verbatim>\<open>undefined\<close> when the values are an array. Nothing in the function catches.
\<close>

definition codapRequestHandler ::
  "CodapInitiatedCommand \<Rightarrow> State \<Rightarrow> (error + unit CodapResponse list) \<times> State" where
  "codapRequestHandler command s =
     (if action command \<noteq> Notify then (Inr [\<lparr>success = True, responseValues = ()\<rparr>], s)
      else if resource command = DocumentChangeNotice \<and> commandValues command = ValuesAbsent
      then (Inl TypeError, s)
      else if resource command = DocumentChangeNotice \<and>
              (case commandValues command of
                 ValuesObject v \<Rightarrow> operation v = Some DataContextCountChanged
               | _ \<Rightarrow> False)
      then (Inr [\<lparr>success = True, responseValues = ()\<rparr>], emit AllContextListeners s)
      else if prefix DataContextChangeNotice (resource command)
      then (case commandValues command of
              ValuesArray vs \<Rightarrow>
                (case handleValues vs (False, False, s) of
                   (Inl e, s2) \<Rightarrow> (Inl e, s2)
                 | (Inr (contextUpdate, contextListUpdate), s2) \<Rightarrow>
                     (let contextName = contextNameOf (resource command);
                          s3 = (if contextUpdate
                                then emit (UpdateListenersForContext contextName)
                                       (invalidateContext contextName s2)
                                else s2);
                          s4 = (if contextListUpdate then emit AllContextListeners s3 else s3)
                      in (Inr [\<lparr>success = True, responseValues = ()\<rparr>], s4)))
            | _ \<Rightarrow> (Inr [\<lparr>success = True, responseValues = ()\<rparr>], s))
      else (Inr [\<lparr>success = True, responseValues = ()\<rparr>], s))"

section \<open>Notions used in the statements\<close>

text \<open>
  What \<^verbatim>\<open>getCaseById\<close> finds for an id in a given state, cache first and host
  second, without the effects; \<open>None\<close> when the host refuses.
\<close>

definition lookupCase :: "Host \<Rightarrow> string \<Rightarrow> State \<Rightarrow> int \<Rightarrow> ReturnedCase option" where
  "lookupCase h context s i =
     (case getCase i s of
        Some cached \<Rightarrow> Some cached
      | None \<Rightarrow>
          (if success (respondGetCase h context i)
           then Some (responseValues (respondGetCase h context i)) else None))"

text \<open>
  A chain of cases linked by parent ids: \<open>ps\<close> lists the ancestors of \<open>c\<close> from its
  parent up to the root, each found under the parent id of the case before it, and the
  last one has no parent.
\<close>

fun parentChain :: "(int \<Rightarrow> ReturnedCase option) \<Rightarrow> ReturnedCase \<Rightarrow> ReturnedCase list \<Rightarrow> bool" where
  "parentChain look c [] = (parent c = None)"
| "parentChain look c (p # ps) =
     (case parent c of None \<Rightarrow> False | Some i \<Rightarrow> look i = Some p \<and> parentChain look p ps)"

text \<open>
  The value of key \<open>k\<close> in the case nearest to the root that has the key, in a chain
  listed from the leaf to the root.
\<close>

definition rootmost :: "string \<Rightarrow> ReturnedCase list \<Rightarrow> JsonValue option" where
  "rootmost k cs =
     (case find (\<lambda>x. values x k \<noteq> None) (rev cs) of None \<Rightarrow> None | Some x \<Rightarrow> values x k)"

text \<open>
  The case ids that one operation of a notification lists: those of
  \<^verbatim>\<open>result.caseIDs\<close> when the operation is a deletion or an update of cases and the
  list is there, none otherwise.
\<close>

definition listedCaseIds :: "Notification \<Rightarrow> int list" where
  "listedCaseIds v =
     (if operation v = Some DeleteCases \<or> operation v = Some UpdateCases
      then (case result v of
              None \<Rightarrow> []
            | Some res \<Rightarrow> (case caseIDs res of None \<Rightarrow> [] | Some ids \<Rightarrow> ids))
      else [])"


section \<open>Example inputs\<close>

text \<open>
  Modelled from the spec: a filling of defaults that gives a collection without labels
  or without attributes empty ones.
\<close>

definition fillDefaults :: "Collection \<Rightarrow> Collection" where
  "fillDefaults c =
     c\<lparr>labels := Some (case labels c of None \<Rightarrow> [] | Some l \<Rightarrow> l),
       attrs := Some (case attrs c of None \<Rightarrow> [] | Some a \<Rightarrow> a)\<rparr>"

text \<open>
  Modelled from the spec: two collection sequences are equal iff they have the same
  length and each positional pair has equal name and equal attribute and label content.
\<close>

definition sameCollections :: "Collection list \<Rightarrow> Collection list \<Rightarrow> bool" where
  "sameCollections xs ys =
     (length xs = length ys \<and>
      list_all2 (\<lambda>x y. name x = name y \<and> labels x = labels y \<and> attrs x = attrs y) xs ys)"

text \<open>
  Modelled from the spec: a context is normalized by filling the defaults of each of
  its collections.
\<close>

definition defaultsUtil :: Util where
  "defaultsUtil =
     \<lparr>fillCollectionWithDefaults = fillDefaults,
      collectionsEqual = sameCollections,
      normalizeDataContext = (\<lambda>d. d\<lparr>collections := map fillDefaults (collections d)\<rparr>)\<rparr>"

definition peopleCollection :: Collection where
  "peopleCollection = \<lparr>name = ''people'', labels = Some [], attrs = Some [''name'', ''age'']\<rparr>"

definition peopleRequested :: Collection where
  "peopleRequested = \<lparr>name = ''people'', labels = None, attrs = Some [''name'', ''age'']\<rparr>"

definition citiesRequested :: Collection where
  "citiesRequested = \<lparr>name = ''cities'', labels = None, attrs = Some [''city'']\<rparr>"

definition peopleContext :: DataContext where
  "peopleContext = \<lparr>dcName = ''People'', dcTitle = ''People'', collections = [peopleCollection]\<rparr>"

definition peopleContextRaw :: DataContext where
  "peopleContextRaw = \<lparr>dcName = ''People'', dcTitle = ''People'', collections = [peopleRequested]\<rparr>"

definition emptyState :: State where
  "emptyState =
     \<lparr>contextCache = Map.empty, caseCache = Map.empty, recordsCache = Map.empty, trace = []\<rparr>"

definition peopleState :: State where
  "peopleState = emptyState\<lparr>contextCache := [''People'' \<mapsto> peopleContext]\<rparr>"

text \<open>The chain root, mid, leaf with the values \<open>{a:1}\<close>, \<open>{a:2,b:2}\<close>, \<open>{b:3,c:3}\<close>.\<close>

definition chainRoot :: ReturnedCase where
  "chainRoot = \<lparr>caseId = 1, parent = None, values = [''a'' \<mapsto> JNum 1]\<rparr>"

definition chainMid :: ReturnedCase where
  "chainMid = \<lparr>caseId = 2, parent = Some 1, values = [''a'' \<mapsto> JNum 2, ''b'' \<mapsto> JNum 2]\<rparr>"

definition chainLeaf :: ReturnedCase where
  "chainLeaf = \<lparr>caseId = 3, parent = Some 2, values = [''b'' \<mapsto> JNum 3, ''c'' \<mapsto> JNum 3]\<rparr>"

definition casesState :: State where
  "casesState = peopleState\<lparr>caseCache := [5 \<mapsto> chainRoot, 7 \<mapsto> chainMid, 9 \<mapsto> chainLeaf]\<rparr>"

definition ok :: "unit CodapResponse" where
  "ok = \<lparr>success = True, responseValues = ()\<rparr>"

definition failed :: "unit CodapResponse" where
  "failed = \<lparr>success = False, responseValues = ()\<rparr>"

text \<open>
  A host that knows the context \<open>People\<close> and the cases 1 and 2, and that fails the
  third request of every batch.
\<close>

definition exampleHost :: Host where
  "exampleHost =
     \<lparr>respondGetContext = (\<lambda>n.
         if n = ''People'' then \<lparr>success = True, responseValues = peopleContextRaw\<rparr>
         else \<lparr>success = False, responseValues = peopleContextRaw\<rparr>),
      respondGetCase = (\<lambda>context i.
         if i = 1 then \<lparr>success = True, responseValues = chainRoot\<rparr>
         else if i = 2 then \<lparr>success = True, responseValues = chainMid\<rparr>
         else \<lparr>success = False, responseValues = chainRoot\<rparr>),
      respondMultiple = (\<lambda>requests.
         case requests of
           r1 # r2 # r3 # rest \<Rightarrow> ok # ok # failed # map (\<lambda>r. ok) rest
         | _ \<Rightarrow> map (\<lambda>r. ok) requests)\<rparr>"

definition peopleDataset :: Dataset where
  "peopleDataset =
     \<lparr>datasetCollections = [peopleRequested], datasetRecords = [[''name'' \<mapsto> JStr ''Ada'']]\<rparr>"

definition citiesDataset :: Dataset where
  "citiesDataset =
     \<lparr>datasetCollections = [citiesRequested], datasetRecords = [[''city'' \<mapsto> JStr ''Oslo'']]\<rparr>"

definition emptyDataset :: Dataset where
  "emptyDataset = \<lparr>datasetCollections = [], datasetRecords = []\<rparr>"

definition createAttributeNotice :: CodapInitiatedCommand where
  "createAttributeNotice =
     \<lparr>action = Notify, resource = ''dataContextChangeNotice[People]'',
      commandValues = ValuesArray [Some \<lparr>operation = Some CreateAttribute, result = None\<rparr>]\<rparr>"

definition updateContextNotice :: CodapInitiatedCommand where
  "updateContextNotice =
     \<lparr>action = Notify, resource = ''dataContextChangeNotice[People]'',
      commandValues = ValuesArray [Some \<lparr>operation = Some UpdateContext, result = None\<rparr>]\<rparr>"

definition deleteCasesNotice :: CodapInitiatedCommand where
  "deleteCasesNotice =
     \<lparr>action = Notify, resource = ''dataContextChangeNotice[People]'',
      commandValues = ValuesArray
        [Some \<lparr>operation = Some UpdateContext, result = None\<rparr>,
         Some \<lparr>operation = Some DeleteCases, result = Some \<lparr>caseIDs = Some [5, 9]\<rparr>\<rparr>,
         Some \<lparr>operation = Some CreateCases, result = Some \<lparr>caseIDs = Some [7]\<rparr>\<rparr>]\<rparr>"







section \<open>Flattening a chain of cases\<close>

lemma getCaseById_lookup:
  "getCaseById h context i s = (r, s') \<Longrightarrow>
     lookupCase h context s' = lookupCase h context s \<and>
     (case lookupCase h context s i of Some p \<Rightarrow> r = Inr p | None \<Rightarrow> (\<exists>e. r = Inl e))"
  by (auto simp: getCaseById_def lookupCase_def getCase_def setCase_def emit_def Let_def fun_eq_iff
      split: option.splits if_splits)

lemma find_append_cases:
  "find P (xs @ ys) = (case find P xs of None \<Rightarrow> find P ys | Some x \<Rightarrow> Some x)"
  by (induction xs) auto

lemma find_Some_holds: "find P xs = Some x \<Longrightarrow> P x"
  by (induction xs) (auto split: if_splits)

lemma rootmost_Cons:
  "rootmost k (c # ps) = (case rootmost k ps of Some v \<Rightarrow> Some v | None \<Rightarrow> values c k)"
  by (auto simp: rootmost_def find_append_cases split: option.splits dest: find_Some_holds)

lemma example_chain:
  "parentChain (lookupCase exampleHost ''People'' emptyState) chainLeaf [chainMid, chainRoot]"
  by (simp add: lookupCase_def getCase_def emptyState_def exampleHost_def
      chainLeaf_def chainMid_def chainRoot_def)

text \<open>
  C1, as the code has it. For every chain of cases linked by parent ids, each parent
  being found and the last case having no parent, flattening the leaf returns, and
  returns a record; every key of every case of the chain is in it, with the value of
  the case nearest to the root that has the key. So an ancestor's value takes
  precedence over a descendant's value under the same key, and the keys that only a
  descendant has survive.
\<close>

theorem flatten_ancestor_precedence:
  assumes "parentChain (lookupCase h context s) c ps"
  shows "\<exists>r s'. dataItemFromChildCase h context c s = Some (Inr r, s') \<and>
                 (\<forall>k. r k = rootmost k (c # ps))"
  using assms
proof (induction ps arbitrary: c s)
  case Nil
  then show ?case
    by (subst dataItemFromChildCase.simps) (simp add: rootmost_def split: option.splits)
next
  case (Cons p ps)
  from Cons.prems obtain i where i: "parent c = Some i" "lookupCase h context s i = Some p"
    and ch: "parentChain (lookupCase h context s) p ps"
    by (auto split: option.splits)
  obtain r1 s1 where g: "getCaseById h context i s = (r1, s1)" by force
  from getCaseById_lookup[OF g] i
  have r1: "r1 = Inr p" and l: "lookupCase h context s1 = lookupCase h context s"
    by auto
  from Cons.IH[of s1 p] ch l obtain r s' where
    d: "dataItemFromChildCase h context p s1 = Some (Inr r, s')"
    and rk: "\<forall>k. r k = rootmost k (p # ps)"
    by auto
  have "dataItemFromChildCase h context c s = Some (Inr (spread (values c) r), s')"
    by (subst dataItemFromChildCase.simps) (simp add: i g r1 d)
  moreover have "\<forall>k. spread (values c) r k = rootmost k (c # p # ps)"
    using rk by (auto simp: spread_def map_add_def rootmost_Cons[of _ c] split: option.splits)
  ultimately show ?case by blast
qed

theorem flatten_ancestor_precedence_witness:
  "parentChain (lookupCase exampleHost ''People'' emptyState) chainLeaf [chainMid, chainRoot] \<and>
   (\<exists>r s'. dataItemFromChildCase exampleHost ''People'' chainLeaf emptyState = Some (Inr r, s') \<and>
       r ''a'' = Some (JNum 1) \<and> r ''b'' = Some (JNum 2) \<and> r ''c'' = Some (JNum 3) \<and>
       r ''d'' = None)"
proof -
  from flatten_ancestor_precedence [OF example_chain] obtain r s' where
    d: "dataItemFromChildCase exampleHost ''People'' chainLeaf emptyState = Some (Inr r, s')"
    and r: "\<forall>k. r k = rootmost k [chainLeaf, chainMid, chainRoot]"
    by blast
  have "r ''a'' = Some (JNum 1)" "r ''b'' = Some (JNum 2)" "r ''c'' = Some (JNum 3)"
    "r ''d'' = None"
    by (simp_all add: r rootmost_def chainLeaf_def chainMid_def chainRoot_def)
  with d example_chain show ?thesis by blast
qed

text \<open>
  The chain of the specification: the flattened leaf is \<open>{a:1, b:2, c:3}\<close>, not
  \<open>{a:2, b:3, c:3}\<close>.
\<close>

theorem flatten_descendant_precedence_counterexample:
  "map_option fst (dataItemFromChildCase exampleHost ''People'' chainLeaf emptyState)
     = Some (Inr [''a'' \<mapsto> JNum 1, ''b'' \<mapsto> JNum 2, ''c'' \<mapsto> JNum 3]) \<and>
   map_option fst (dataItemFromChildCase exampleHost ''People'' chainLeaf emptyState)
     \<noteq> Some (Inr [''a'' \<mapsto> JNum 2, ''b'' \<mapsto> JNum 3, ''c'' \<mapsto> JNum 3])"
proof -
  have e: "map_option fst (dataItemFromChildCase exampleHost ''People'' chainLeaf emptyState)
     = Some (Inr [''a'' \<mapsto> JNum 1, ''b'' \<mapsto> JNum 2, ''c'' \<mapsto> JNum 3])"
    apply (subst dataItemFromChildCase.simps)
    apply (simp add: chainLeaf_def getCaseById_def getCase_def emptyState_def emit_def
        setCase_def exampleHost_def)
    apply (subst dataItemFromChildCase.simps)
    apply (simp add: chainMid_def getCaseById_def getCase_def emptyState_def emit_def
        setCase_def exampleHost_def)
    apply (subst dataItemFromChildCase.simps)
    apply (simp add: chainRoot_def spread_def)
    apply (auto simp: fun_eq_iff map_add_def chainMid_def chainLeaf_def)
    done
  have "[''a'' \<mapsto> JNum 1, ''b'' \<mapsto> JNum 2, ''c'' \<mapsto> JNum 3] ''a''
          \<noteq> [''a'' \<mapsto> JNum 2, ''b'' \<mapsto> JNum 3, ''c'' \<mapsto> JNum 3] ''a''"
    by simp
  then have "[''a'' \<mapsto> JNum 1, ''b'' \<mapsto> JNum 2, ''c'' \<mapsto> JNum 3]
          \<noteq> [''a'' \<mapsto> JNum 2, ''b'' \<mapsto> JNum 3, ''c'' \<mapsto> JNum 3]"
    by metis
  then have n: "Some (Inr [''a'' \<mapsto> JNum 1, ''b'' \<mapsto> JNum 2, ''c'' \<mapsto> JNum 3])
      \<noteq> Some (Inr [''a'' \<mapsto> JNum 2, ''b'' \<mapsto> JNum 3, ''c'' \<mapsto> JNum 3] :: error + DataItem)"
    by (simp only: option.inject sum.inject not_False_eq_True)
  show ?thesis
    unfolding e using n by (intro conjI refl)
qed

section \<open>Schema reconciliation\<close>

lemma checkResponses_all:
  "checkResponses contextName responses =
     (if \<forall>r\<in>set responses. success r then Inr ()
      else Inl (Error (''Failed to update '' @ contextName)))"
  by (induction responses) auto

lemma people_cached:
  "getDataContext defaultsUtil exampleHost ''People'' peopleState = (Inr peopleContext, peopleState)"
  by (simp add: getDataContext_def getContext_def peopleState_def emptyState_def)

lemma people_equal:
  "collectionsEqual defaultsUtil (collections peopleContext)
     (map (fillCollectionWithDefaults defaultsUtil) (datasetCollections peopleDataset))"
  by (simp add: defaultsUtil_def sameCollections_def fillDefaults_def peopleContext_def
      peopleDataset_def peopleCollection_def peopleRequested_def)

lemma cities_differ:
  "\<not> collectionsEqual defaultsUtil (collections peopleContext)
     (map (fillCollectionWithDefaults defaultsUtil) (datasetCollections citiesDataset))"
  by (simp add: defaultsUtil_def sameCollections_def fillDefaults_def peopleContext_def
      citiesDataset_def peopleCollection_def citiesRequested_def)

text \<open>
  C2. When the context is at hand and the requested collections, defaults filled in,
  are equal to the current ones, the one batch that is sent holds a delete-all-cases
  for each current collection and then the insertion of the caller's records: no
  request creates or deletes a collection, and exactly one request inserts data items.
\<close>

theorem reconcile_equal_schema:
  assumes "getDataContext u h contextName s = (Inr context, s1)"
    and "collectionsEqual u (collections context)
           (map (fillCollectionWithDefaults u) (datasetCollections dataset))"
  shows "snd (updateContextWithDataSet u h contextName dataset s) =
           emit (PhoneCallMultiple (updateRequests u contextName context dataset)) s1 \<and>
         updateRequests u contextName context dataset =
           map (\<lambda>c. DeleteAllCasesRequest contextName (name c)) (collections context)
           @ [InsertDataItemsRequest contextName (datasetRecords dataset)] \<and>
         filter isCollectionManagement (updateRequests u contextName context dataset) = [] \<and>
         filter isInsertDataItems (updateRequests u contextName context dataset)
           = [InsertDataItemsRequest contextName (datasetRecords dataset)]"
proof -
  have r: "updateRequests u contextName context dataset =
           map (\<lambda>c. DeleteAllCasesRequest contextName (name c)) (collections context)
           @ [InsertDataItemsRequest contextName (datasetRecords dataset)]"
    using assms(2) by (simp add: updateRequests_def Let_def)
  have m: "filter isCollectionManagement
             (map (\<lambda>c. DeleteAllCasesRequest contextName (name c)) cs) = []"
    for cs :: "Collection list"
    by (induction cs) auto
  have i: "filter isInsertDataItems
             (map (\<lambda>c. DeleteAllCasesRequest contextName (name c)) cs) = []"
    for cs :: "Collection list"
    by (induction cs) auto
  show ?thesis
    using assms(1) by (simp add: r m i updateContextWithDataSet_def Let_def)
qed

theorem reconcile_equal_schema_witness:
  "trace (snd (updateContextWithDataSet defaultsUtil exampleHost ''People'' peopleDataset peopleState))
     = [PhoneCallMultiple
         [DeleteAllCasesRequest ''People'' ''people'',
          InsertDataItemsRequest ''People'' [[''name'' \<mapsto> JStr ''Ada'']]]] \<and>
   filter isCollectionManagement
     (updateRequests defaultsUtil ''People'' peopleContext peopleDataset) = [] \<and>
   filter isInsertDataItems (updateRequests defaultsUtil ''People'' peopleContext peopleDataset)
     = [InsertDataItemsRequest ''People'' [[''name'' \<mapsto> JStr ''Ada'']]]"
  using reconcile_equal_schema [OF people_cached people_equal]
  by (simp add: emit_def peopleState_def emptyState_def peopleContext_def peopleCollection_def
      peopleDataset_def)

text \<open>
  C3. When the context is at hand and the requested collections, defaults filled in,
  are not equal to the current ones, one batch is sent, and it holds, in this order:
  a delete-all-cases for each current collection, the creation of the one placeholder
  collection, a delete-collection for each current collection, the creation of the
  requested collections, the deletion of the placeholder, and the insertion of the
  caller's records.
\<close>

theorem reconcile_changed_schema:
  assumes "getDataContext u h contextName s = (Inr context, s1)"
    and "\<not> collectionsEqual u (collections context)
             (map (fillCollectionWithDefaults u) (datasetCollections dataset))"
  shows "snd (updateContextWithDataSet u h contextName dataset s) =
           emit (PhoneCallMultiple
             (map (\<lambda>c. DeleteAllCasesRequest contextName (name c)) (collections context)
              @ [CreateCollectionsRequest contextName
                   [\<lparr>name = uniqueName (collections context) (datasetCollections dataset),
                     labels = Some [], attrs = None\<rparr>]]
              @ map (\<lambda>c. DeleteCollectionRequest contextName (name c)) (collections context)
              @ [CreateCollectionsRequest contextName (datasetCollections dataset),
                 DeleteCollectionRequest contextName
                   (uniqueName (collections context) (datasetCollections dataset)),
                 InsertDataItemsRequest contextName (datasetRecords dataset)])) s1"
  using assms by (simp add: updateContextWithDataSet_def updateRequests_def Let_def)

theorem reconcile_changed_schema_witness:
  "trace (snd (updateContextWithDataSet defaultsUtil exampleHost ''People'' citiesDataset peopleState)) =
     [PhoneCallMultiple
       [DeleteAllCasesRequest ''People'' ''people'',
        CreateCollectionsRequest ''People''
          [\<lparr>name = ''peoplecities'', labels = Some [], attrs = None\<rparr>],
        DeleteCollectionRequest ''People'' ''people'',
        CreateCollectionsRequest ''People'' [citiesRequested],
        DeleteCollectionRequest ''People'' ''peoplecities'',
        InsertDataItemsRequest ''People'' [[''city'' \<mapsto> JStr ''Oslo'']]]]"
  using reconcile_changed_schema [OF people_cached cities_differ]
  by (simp add: emit_def peopleState_def emptyState_def peopleContext_def peopleCollection_def
      citiesDataset_def citiesRequested_def uniqueName_def concatNames_def)

lemma foldl_concatNames: "foldl concatNames acc cs = acc @ concat (map name cs)"
  by (induction cs arbitrary: acc) (auto simp: concatNames_def)

lemma uniqueName_concat:
  "uniqueName current requested = concat (map name (current @ requested))"
  by (simp add: uniqueName_def foldl_concatNames)

lemma length_concat_names:
  "length (filter (\<lambda>c. name c \<noteq> []) cs) \<le> length (concat (map name cs))"
proof (induction cs)
  case Nil
  then show ?case by simp
next
  case (Cons c cs)
  then show ?case by (cases "name c") auto
qed

lemma concat_names_longer:
  assumes "c \<in> set cs" and "2 \<le> length (filter (\<lambda>c. name c \<noteq> []) cs)"
  shows "length (name c) < length (concat (map name cs))"
proof -
  from assms(1) obtain ys zs where cs: "cs = ys @ c # zs"
    by (auto simp: in_set_conv_decomp)
  have l: "length (concat (map name cs)) = length (concat (map name (ys @ zs))) + length (name c)"
    by (simp add: cs)
  have "1 \<le> length (filter (\<lambda>c. name c \<noteq> []) (ys @ zs))"
    using assms(2) by (auto simp: cs split: if_splits)
  with length_concat_names[of "ys @ zs"] have "1 \<le> length (concat (map name (ys @ zs)))"
    by linarith
  with l show ?thesis by linarith
qed

text \<open>
  C4, as the code has it. The placeholder name is the concatenation of the current
  names followed by the requested names. When at least two of the current and requested
  collections, counted together, have a non-empty name, it is none of the current and
  requested names.
\<close>

theorem placeholder_name_fresh:
  assumes "2 \<le> length (filter (\<lambda>c. name c \<noteq> []) (current @ requested))"
  shows "uniqueName current requested \<notin> name ` set (current @ requested)"
proof
  assume "uniqueName current requested \<in> name ` set (current @ requested)"
  then obtain c where c: "c \<in> set (current @ requested)" "uniqueName current requested = name c"
    by auto
  from c(2) have "length (concat (map name (current @ requested))) = length (name c)"
    by (simp only: uniqueName_concat)
  with concat_names_longer[OF c(1) assms] show False
    by linarith
qed

theorem placeholder_name_fresh_witness:
  "2 \<le> length (filter (\<lambda>c. name c \<noteq> []) ([peopleCollection] @ [citiesRequested])) \<and>
   uniqueName [peopleCollection] [citiesRequested]
     \<notin> name ` set ([peopleCollection] @ [citiesRequested])"
  using placeholder_name_fresh [of "[peopleCollection]" "[citiesRequested]"]
  by (simp add: peopleCollection_def citiesRequested_def)

text \<open>
  A context with the one collection \<open>people\<close> and a request for no collection at all:
  the sequences differ, and the placeholder is named \<open>people\<close> as the current
  collection is.
\<close>

theorem placeholder_name_collision_counterexample:
  "\<not> collectionsEqual defaultsUtil (collections peopleContext)
       (map (fillCollectionWithDefaults defaultsUtil) (datasetCollections emptyDataset)) \<and>
   uniqueName (collections peopleContext) (datasetCollections emptyDataset) = ''people'' \<and>
   uniqueName (collections peopleContext) (datasetCollections emptyDataset)
     \<in> name ` set (collections peopleContext @ datasetCollections emptyDataset)"
  by (simp add: defaultsUtil_def sameCollections_def peopleContext_def emptyDataset_def
      peopleCollection_def uniqueName_def concatNames_def)

text \<open>
  C5. When the context is at hand, the batch is answered and the answers are scanned:
  if one of them is not a success, the caller gets the one error
  \<open>Failed to update\<close> with the name of the context, and if all of them are successes,
  the caller gets no error. The result says nothing of the single steps.
\<close>

theorem reconcile_aggregate_error:
  assumes "getDataContext u h contextName s = (Inr context, s1)"
  shows "fst (updateContextWithDataSet u h contextName dataset s) =
           (if \<forall>r\<in>set (respondMultiple h (updateRequests u contextName context dataset)). success r
            then Inr ()
            else Inl (Error (''Failed to update '' @ contextName)))"
  using assms by (simp add: updateContextWithDataSet_def Let_def checkResponses_all)

theorem reconcile_aggregate_error_witness:
  "respondMultiple exampleHost (updateRequests defaultsUtil ''People'' peopleContext citiesDataset)
     = [ok, ok, failed, ok, ok, ok] \<and>
   fst (updateContextWithDataSet defaultsUtil exampleHost ''People'' citiesDataset peopleState)
     = Inl (Error ''Failed to update People'') \<and>
   fst (updateContextWithDataSet defaultsUtil exampleHost ''People'' peopleDataset peopleState)
     = Inr ()"
  using reconcile_aggregate_error [OF people_cached, of citiesDataset]
    reconcile_aggregate_error [OF people_cached, of peopleDataset] cities_differ people_equal
  by (simp add: updateRequests_def Let_def exampleHost_def peopleContext_def citiesDataset_def
      peopleDataset_def ok_def failed_def)

section \<open>Reading a context through the cache\<close>

text \<open>
  C8. With a cache entry for the name, \<^verbatim>\<open>getDataContext\<close> returns the cached context
  and the state is as before, so nothing was sent. Without one, it sends one get of the
  context; if the answer is a success, the normalized context is returned and is from
  then on the cache entry of that name.
\<close>

theorem getDataContext_cache_routing:
  "(getContext contextName s = Some cached \<longrightarrow>
      getDataContext u h contextName s = (Inr cached, s)) \<and>
   (getContext contextName s = None \<longrightarrow>
      trace (snd (getDataContext u h contextName s))
        = trace s @ [PhoneCall (GetContextRequest contextName)]) \<and>
   (getContext contextName s = None \<and> success (respondGetContext h contextName) \<longrightarrow>
      getDataContext u h contextName s
        = (Inr (normalizeDataContext u (responseValues (respondGetContext h contextName))),
           setContext contextName
             (normalizeDataContext u (responseValues (respondGetContext h contextName)))
             (emit (PhoneCall (GetContextRequest contextName)) s)) \<and>
      getContext contextName (snd (getDataContext u h contextName s))
        = Some (normalizeDataContext u (responseValues (respondGetContext h contextName))))"
  by (simp add: getDataContext_def Let_def getContext_def setContext_def emit_def)

theorem getDataContext_cache_routing_witness:
  "getContext ''People'' peopleState = Some peopleContext \<and>
   getDataContext defaultsUtil exampleHost ''People'' peopleState = (Inr peopleContext, peopleState) \<and>
   getContext ''People'' emptyState = None \<and>
   success (respondGetContext exampleHost ''People'') \<and>
   fst (getDataContext defaultsUtil exampleHost ''People'' emptyState) = Inr peopleContext \<and>
   trace (snd (getDataContext defaultsUtil exampleHost ''People'' emptyState))
     = [PhoneCall (GetContextRequest ''People'')] \<and>
   getContext ''People'' (snd (getDataContext defaultsUtil exampleHost ''People'' emptyState))
     = Some peopleContext"
  using getDataContext_cache_routing
      [of "''People''" peopleState peopleContext defaultsUtil exampleHost]
    getDataContext_cache_routing
      [of "''People''" emptyState peopleContext defaultsUtil exampleHost]
  by (simp add: getContext_def setContext_def emit_def peopleState_def emptyState_def
      exampleHost_def defaultsUtil_def fillDefaults_def peopleContext_def peopleContextRaw_def
      peopleCollection_def peopleRequested_def)

text \<open>
  C10. When there is no cache entry and the host answers the get with a failure,
  \<^verbatim>\<open>getDataContext\<close> rejects with \<open>Failed to get context\<close> and the name, and
  \<^verbatim>\<open>getCaseById\<close> rejects with \<open>Failed to get case in\<close>, the context and the id;
  the three stores are as they were, and the entry of the key is still absent.
\<close>

theorem failed_fetch_writes_nothing:
  "(getContext contextName s = None \<and> \<not> success (respondGetContext h contextName) \<longrightarrow>
      fst (getDataContext u h contextName s)
        = Inl (Error (''Failed to get context '' @ contextName)) \<and>
      contextCache (snd (getDataContext u h contextName s)) = contextCache s \<and>
      caseCache (snd (getDataContext u h contextName s)) = caseCache s \<and>
      recordsCache (snd (getDataContext u h contextName s)) = recordsCache s \<and>
      getContext contextName (snd (getDataContext u h contextName s)) = None) \<and>
   (getCase i s = None \<and> \<not> success (respondGetCase h context i) \<longrightarrow>
      fst (getCaseById h context i s)
        = Inl (Error (''Failed to get case in '' @ context @ '' with id '' @ showInt i)) \<and>
      contextCache (snd (getCaseById h context i s)) = contextCache s \<and>
      caseCache (snd (getCaseById h context i s)) = caseCache s \<and>
      recordsCache (snd (getCaseById h context i s)) = recordsCache s \<and>
      getCase i (snd (getCaseById h context i s)) = None)"
  by (simp add: getDataContext_def getCaseById_def Let_def getContext_def getCase_def emit_def)

theorem failed_fetch_writes_nothing_witness:
  "getContext ''Cities'' peopleState = None \<and>
   \<not> success (respondGetContext exampleHost ''Cities'') \<and>
   fst (getDataContext defaultsUtil exampleHost ''Cities'' peopleState)
     = Inl (Error ''Failed to get context Cities'') \<and>
   contextCache (snd (getDataContext defaultsUtil exampleHost ''Cities'' peopleState))
     = contextCache peopleState \<and>
   getCase 7 peopleState = None \<and>
   \<not> success (respondGetCase exampleHost ''People'' 7) \<and>
   fst (getCaseById exampleHost ''People'' 7 peopleState)
     = Inl (Error ''Failed to get case in People with id 7'') \<and>
   caseCache (snd (getCaseById exampleHost ''People'' 7 peopleState)) = caseCache peopleState"
  using failed_fetch_writes_nothing
      [of "''Cities''" peopleState exampleHost defaultsUtil 7 "''People''"]
  by (simp add: getContext_def getCase_def peopleState_def emptyState_def exampleHost_def
      showInt_def showNat.simps)

section \<open>The notification handler\<close>

lemma fold_invalidateCase:
  "fold invalidateCase ids s =
     s\<lparr>caseCache := (\<lambda>i. if i \<in> set ids then None else caseCache s i)\<rparr>"
proof (induction ids arbitrary: s)
  case Nil
  then show ?case by simp
next
  case (Cons a ids)
  have "fold invalidateCase (a # ids) s = fold invalidateCase ids (invalidateCase a s)"
    by simp
  also have "\<dots> = (invalidateCase a s)\<lparr>caseCache :=
      (\<lambda>i. if i \<in> set ids then None else caseCache (invalidateCase a s) i)\<rparr>"
    by (rule Cons.IH)
  also have "\<dots> = s\<lparr>caseCache := (\<lambda>i. if i \<in> set (a # ids) then None else caseCache s i)\<rparr>"
    by (auto simp: invalidateCase_def fun_eq_iff)
  finally show ?case .
qed

lemma handleValue_eq:
  "handleValue v (a, b, s) =
     (a \<or> includesOperation mutatingOperations (operation v),
      b \<or> operation v = Some UpdateContext,
      s\<lparr>caseCache := (\<lambda>i. if i \<in> set (listedCaseIds v) then None else caseCache s i)\<rparr>)"
proof -
  have e: "s\<lparr>caseCache := (\<lambda>i. if i \<in> set [] then None else caseCache s i)\<rparr> = s"
    by simp
  show ?thesis
  proof (cases "operation v = Some DeleteCases \<or> operation v = Some UpdateCases")
    case False
    then show ?thesis
      unfolding handleValue_def listedCaseIds_def using e by simp
  next
    case True
    show ?thesis
    proof (cases "result v")
      case None
      with True show ?thesis
        unfolding handleValue_def listedCaseIds_def using e by simp
    next
      case (Some res)
      show ?thesis
      proof (cases "caseIDs res")
        case None
        with True Some show ?thesis
          unfolding handleValue_def listedCaseIds_def using e by simp
      next
        case (Some ids)
        with True \<open>result v = Some res\<close> show ?thesis
          unfolding handleValue_def listedCaseIds_def by (simp add: fold_invalidateCase)
      qed
    qed
  qed
qed

lemma fold_handleValue:
  "fold handleValue vs (a, b, s) =
     (a \<or> (\<exists>v\<in>set vs. includesOperation mutatingOperations (operation v)),
      b \<or> (\<exists>v\<in>set vs. operation v = Some UpdateContext),
      s\<lparr>caseCache :=
          (\<lambda>i. if i \<in> (\<Union>v\<in>set vs. set (listedCaseIds v)) then None else caseCache s i)\<rparr>)"
proof (induction vs arbitrary: a b s)
  case Nil
  then show ?case by simp
next
  case (Cons v vs)
  show ?case
    apply (simp add: handleValue_eq Cons.IH)
    apply (auto simp: fun_eq_iff)
    done
qed

lemma handleValues_objects:
  "handleValues (map Some vs) acc =
     (case fold handleValue vs acc of
        (contextUpdate, contextListUpdate, s) \<Rightarrow> (Inr (contextUpdate, contextListUpdate), s))"
proof (induction vs arbitrary: acc)
  case Nil
  then show ?case by (cases acc) simp
next
  case (Cons v vs)
  then show ?case by simp
qed



lemma mutating_not_UpdateContext:
  "includesOperation mutatingOperations x \<Longrightarrow> x \<noteq> Some UpdateContext"
  by (auto simp: includesOperation_def mutatingOperations_def)

lemma people_name: "contextNameOf ''dataContextChangeNotice[People]'' = ''People''"
  by (simp add: contextNameOf_def search_def slice_def)

text \<open>
  C6. Take a notification of a change in a context, with a non-empty batch of
  operations. If every operation of the batch is one of the mutating operations (a
  batch of one create-attribute, say), then afterwards the context has no schema entry
  and no record-set entry in the cache, and the one call to the listeners is the call
  of the listeners of that context: the listeners for all contexts are not called. If
  every operation is the update-context operation, then the schema store and the
  record-set store are as before, and the one call to the listeners is the call of the
  listeners for all contexts.
\<close>

theorem notification_classification:
  assumes "action command = Notify"
    and "prefix DataContextChangeNotice (resource command)"
    and "commandValues command = ValuesArray (map Some vs)"
    and "vs \<noteq> []"
  shows "((\<forall>v\<in>set vs. includesOperation mutatingOperations (operation v)) \<longrightarrow>
            getContext (contextNameOf (resource command)) (snd (codapRequestHandler command s)) = None \<and>
            recordsCache (snd (codapRequestHandler command s)) (contextNameOf (resource command)) = None \<and>
            trace (snd (codapRequestHandler command s))
              = trace s @ [UpdateListenersForContext (contextNameOf (resource command))]) \<and>
         ((\<forall>v\<in>set vs. operation v = Some UpdateContext) \<longrightarrow>
            contextCache (snd (codapRequestHandler command s)) = contextCache s \<and>
            recordsCache (snd (codapRequestHandler command s)) = recordsCache s \<and>
            trace (snd (codapRequestHandler command s)) = trace s @ [AllContextListeners])"
proof (intro conjI impI)
  assume m: "\<forall>v\<in>set vs. includesOperation mutatingOperations (operation v)"
  from assms(4) obtain v where v: "v \<in> set vs" by (cases vs) auto
  have cu: "\<exists>v\<in>set vs. includesOperation mutatingOperations (operation v)"
    using m v by blast
  have lu: "\<not> (\<exists>v\<in>set vs. operation v = Some UpdateContext)"
    using m mutating_not_UpdateContext by blast
  have h: "snd (codapRequestHandler command s) =
        emit (UpdateListenersForContext (contextNameOf (resource command)))
          (invalidateContext (contextNameOf (resource command))
            (s\<lparr>caseCache := (\<lambda>i. if i \<in> (\<Union>v\<in>set vs. set (listedCaseIds v)) then None
                                  else caseCache s i)\<rparr>))"
    using assms(1-3) cu lu
    by (simp add: codapRequestHandler_def Let_def handleValues_objects fold_handleValue)
  show "getContext (contextNameOf (resource command)) (snd (codapRequestHandler command s)) = None"
    by (simp add: h emit_def invalidateContext_def getContext_def)
  show "recordsCache (snd (codapRequestHandler command s)) (contextNameOf (resource command)) = None"
    by (simp add: h emit_def invalidateContext_def)
  show "trace (snd (codapRequestHandler command s))
              = trace s @ [UpdateListenersForContext (contextNameOf (resource command))]"
    by (simp add: h emit_def invalidateContext_def)
next
  assume u: "\<forall>v\<in>set vs. operation v = Some UpdateContext"
  from assms(4) obtain v where v: "v \<in> set vs" by (cases vs) auto
  have lu: "\<exists>v\<in>set vs. operation v = Some UpdateContext"
    using u v by blast
  have cu: "\<not> (\<exists>v\<in>set vs. includesOperation mutatingOperations (operation v))"
    using u mutating_not_UpdateContext by metis
  have h: "snd (codapRequestHandler command s) =
        emit AllContextListeners
            (s\<lparr>caseCache := (\<lambda>i. if i \<in> (\<Union>v\<in>set vs. set (listedCaseIds v)) then None
                                  else caseCache s i)\<rparr>)"
    using assms(1-3) cu lu
    by (simp add: codapRequestHandler_def Let_def handleValues_objects fold_handleValue)
  show "contextCache (snd (codapRequestHandler command s)) = contextCache s"
    by (simp add: h emit_def)
  show "recordsCache (snd (codapRequestHandler command s)) = recordsCache s"
    by (simp add: h emit_def)
  show "trace (snd (codapRequestHandler command s)) = trace s @ [AllContextListeners]"
    by (simp add: h emit_def)
qed

theorem notification_classification_witness:
  "getContext ''People'' peopleState = Some peopleContext \<and>
   getContext ''People'' (snd (codapRequestHandler createAttributeNotice peopleState)) = None \<and>
   trace (snd (codapRequestHandler createAttributeNotice peopleState))
     = [UpdateListenersForContext ''People''] \<and>
   contextCache (snd (codapRequestHandler updateContextNotice peopleState))
     = contextCache peopleState \<and>
   trace (snd (codapRequestHandler updateContextNotice peopleState)) = [AllContextListeners]"
  using notification_classification
      [of createAttributeNotice "[\<lparr>operation = Some CreateAttribute, result = None\<rparr>]" peopleState]
    notification_classification
      [of updateContextNotice "[\<lparr>operation = Some UpdateContext, result = None\<rparr>]" peopleState]
  by (simp add: createAttributeNotice_def updateContextNotice_def DataContextChangeNotice_def
      people_name includesOperation_def mutatingOperations_def peopleState_def emptyState_def
      getContext_def)

text \<open>
  C7. After a notification of a change in a context with a batch of operations, the
  case store has lost the entries of the ids that the delete-cases and update-cases
  operations of the batch list in their results, and no other entry: every other id
  has the entry it had, whatever other operations the batch holds.
\<close>

theorem case_invalidation_scope:
  assumes "action command = Notify"
    and "prefix DataContextChangeNotice (resource command)"
    and "commandValues command = ValuesArray (map Some vs)"
  shows "caseCache (snd (codapRequestHandler command s)) =
           (\<lambda>i. if i \<in> (\<Union>v\<in>set vs. set (listedCaseIds v)) then None else caseCache s i)"
  using assms
  by (simp add: codapRequestHandler_def Let_def handleValues_objects fold_handleValue emit_def
      invalidateContext_def)

theorem case_invalidation_scope_witness:
  "caseCache casesState 5 = Some chainRoot \<and>
   caseCache casesState 9 = Some chainLeaf \<and>
   caseCache (snd (codapRequestHandler deleteCasesNotice casesState)) 5 = None \<and>
   caseCache (snd (codapRequestHandler deleteCasesNotice casesState)) 9 = None \<and>
   caseCache (snd (codapRequestHandler deleteCasesNotice casesState)) 7 = Some chainMid"
proof -
  have a: "action deleteCasesNotice = Notify"
    by (simp add: deleteCasesNotice_def)
  have p: "prefix DataContextChangeNotice (resource deleteCasesNotice)"
    by (simp add: deleteCasesNotice_def DataContextChangeNotice_def)
  have v: "commandValues deleteCasesNotice = ValuesArray (map Some
      [\<lparr>operation = Some UpdateContext, result = None\<rparr>,
       \<lparr>operation = Some DeleteCases, result = Some \<lparr>caseIDs = Some [5, 9]\<rparr>\<rparr>,
       \<lparr>operation = Some CreateCases, result = Some \<lparr>caseIDs = Some [7]\<rparr>\<rparr>])"
    by (simp add: deleteCasesNotice_def)
  have l: "(\<Union>v\<in>set
      [\<lparr>operation = Some UpdateContext, result = None\<rparr>,
       \<lparr>operation = Some DeleteCases, result = Some \<lparr>caseIDs = Some [5, 9]\<rparr>\<rparr>,
       \<lparr>operation = Some CreateCases, result = Some \<lparr>caseIDs = Some [7]\<rparr>\<rparr>].
      set (listedCaseIds v)) = {5, 9}"
    apply (simp only: list.set UN_insert UN_empty)
    apply (simp add: listedCaseIds_def)
    done
  show ?thesis
    unfolding case_invalidation_scope [OF a p v, of casesState] l
    by (simp add: casesState_def)
qed




end
